theory Spec2Isabelle
  imports Complex_Main "HOL-Library.AList"
begin

section \<open>Python values used by \<^verbatim>\<open>pycg/obj.py\<close>\<close>

text \<open>
  The exceptions the module can raise, by their Python names. The specification's
  error kinds are names for them: InvalidMode is the \<^verbatim>\<open>ValueError\<close> of \<^verbatim>\<open>open\<close>,
  ModeViolation the \<^verbatim>\<open>AssertionError\<close> of the mode assertions, UnknownMaterial the
  \<^verbatim>\<open>KeyError\<close> of \<^verbatim>\<open>materials[mtl]\<close>, IndexOutOfRange the \<^verbatim>\<open>IndexError\<close> of a list
  subscript.
\<close>

datatype error =
  ValueError | AssertionError | IndexError | KeyError | TypeError | AttributeError
  | FileNotFoundError

subsection \<open>Strings\<close>

text \<open>
  A Python \<^verbatim>\<open>str\<close> is modelled as a \<^typ>\<open>string\<close> whose characters are the code
  points 0..255. \<^verbatim>\<open>str.isspace\<close> holds on that range for the code points listed in
  \<open>is_space\<close>; \<^verbatim>\<open>str.lower\<close> maps A..Z and the Latin-1 capitals to their small letters.
\<close>

definition is_space :: "char \<Rightarrow> bool" where
  "is_space c = (of_char c \<in> set [9, 10, 11, 12, 13, 28, 29, 30, 31, 32, 133, 160 :: nat])"

definition lower_char :: "char \<Rightarrow> char" where
  "lower_char c =
     (let n = of_char c :: nat
      in if (65 \<le> n \<and> n \<le> 90) \<or> (192 \<le> n \<and> n \<le> 214) \<or> (216 \<le> n \<and> n \<le> 222)
         then char_of (n + 32) else c)"

definition lower :: "string \<Rightarrow> string" where
  "lower s = map lower_char s"

text \<open>\<^verbatim>\<open>s.strip()\<close>: white space removed at both ends.\<close>

definition strip :: "string \<Rightarrow> string" where
  "strip s = rev (dropWhile is_space (rev (dropWhile is_space s)))"

text \<open>
  \<^verbatim>\<open>s.split()\<close>: the maximal runs of characters that are not white space. The first
  argument of \<open>split_ws\<close> is the word read so far.
\<close>

fun split_ws :: "string \<Rightarrow> string \<Rightarrow> string list" where
  "split_ws w [] = (if w = [] then [] else [w])"
| "split_ws w (c # cs) =
     (if is_space c then (if w = [] then split_ws [] cs else w # split_ws [] cs)
      else split_ws (w @ [c]) cs)"

definition split :: "string \<Rightarrow> string list" where
  "split s = split_ws [] s"

text \<open>
  Iterating a file opened in text mode yields its lines, each with its terminator;
  universal newlines turn \<^verbatim>\<open>\r\n\<close> and a lone \<^verbatim>\<open>\r\<close> into \<^verbatim>\<open>\n\<close>. The first argument of
  \<open>lines_from\<close> is the line read so far.
\<close>

definition newline :: char where
  "newline = CHR 0x0A"

definition carriage_return :: char where
  "carriage_return = CHR 0x0D"

fun universal_newlines :: "string \<Rightarrow> string" where
  "universal_newlines [] = []"
| "universal_newlines [c] = [if c = carriage_return then newline else c]"
| "universal_newlines (c # d # cs) =
     (if c = carriage_return \<and> d = newline then newline # universal_newlines cs
      else if c = carriage_return then newline # universal_newlines (d # cs)
      else c # universal_newlines (d # cs))"

fun lines_from :: "string \<Rightarrow> string \<Rightarrow> string list" where
  "lines_from l [] = (if l = [] then [] else [l])"
| "lines_from l (c # cs) =
     (if c = newline then (l @ [newline]) # lines_from [] cs else lines_from (l @ [c]) cs)"

definition file_lines :: "string \<Rightarrow> string list" where
  "file_lines content = lines_from [] (universal_newlines content)"

subsection \<open>Numbers\<close>

text \<open>
  \<^verbatim>\<open>int(s)\<close> on a token: an optional sign, then decimal digits, where single
  underscores may stand between digits. \<open>digit_seq\<close> reads such a digit group and
  returns its digits; anything else is the \<^verbatim>\<open>ValueError\<close> of Python, here \<open>None\<close>.
\<close>

definition digit_val :: "char \<Rightarrow> nat option" where
  "digit_val c = (let n = of_char c :: nat in if 48 \<le> n \<and> n \<le> 57 then Some (n - 48) else None)"

fun digit_seq :: "string \<Rightarrow> nat list option" where
  "digit_seq [] = None"
| "digit_seq [c] = (case digit_val c of None \<Rightarrow> None | Some d \<Rightarrow> Some [d])"
| "digit_seq (c # c' # cs) =
     (case digit_val c of
        None \<Rightarrow> None
      | Some d \<Rightarrow>
          (if c' = CHR ''_''
           then (case digit_seq cs of None \<Rightarrow> None | Some ds \<Rightarrow> Some (d # ds))
           else (case digit_seq (c' # cs) of None \<Rightarrow> None | Some ds \<Rightarrow> Some (d # ds))))"

definition digits_value :: "nat list \<Rightarrow> nat" where
  "digits_value ds = foldl (\<lambda>a d. 10 * a + d) 0 ds"

definition py_nat :: "string \<Rightarrow> nat option" where
  "py_nat s = map_option digits_value (digit_seq s)"

definition py_int :: "string \<Rightarrow> int option" where
  "py_int s =
     (case s of
        [] \<Rightarrow> None
      | c # cs \<Rightarrow>
          if c = CHR ''-'' then map_option (\<lambda>n. - int n) (py_nat cs)
          else if c = CHR ''+'' then map_option int (py_nat cs)
          else map_option int (py_nat s))"

text \<open>\<^verbatim>\<open>str(n)\<close> of an integer, as the f-strings and \<^verbatim>\<open>str(v)\<close> of the serializer print it.\<close>

definition digit_char :: "nat \<Rightarrow> char" where
  "digit_char d = char_of (48 + d)"

function str_nat :: "nat \<Rightarrow> string" where
  "str_nat n = (if n < 10 then [digit_char n] else str_nat (n div 10) @ [digit_char (n mod 10)])"
  by pat_completeness auto
termination
  by (relation "measure (\<lambda>n. n)") auto

declare str_nat.simps [simp del]

definition str_int :: "int \<Rightarrow> string" where
  "str_int i = (if i < 0 then CHR ''-'' # str_nat (nat (- i)) else str_nat (nat i))"

text \<open>
  \<^verbatim>\<open>float(s)\<close> on a token, for decimal literals: an optional sign, digits with an
  optional point (\<^verbatim>\<open>5\<close>, \<^verbatim>\<open>5.\<close>, \<^verbatim>\<open>.5\<close>, \<^verbatim>\<open>1.25\<close>), an optional exponent. A float is
  modelled by the exact value of its literal, a rational: rounding to binary64, overflow
  and the literals \<^verbatim>\<open>inf\<close> and \<^verbatim>\<open>nan\<close> are outside the model.
\<close>

definition cut :: "(char \<Rightarrow> bool) \<Rightarrow> string \<Rightarrow> string \<times> string option" where
  "cut P s =
     (takeWhile (\<lambda>c. \<not> P c) s,
      case dropWhile (\<lambda>c. \<not> P c) s of [] \<Rightarrow> None | _ # r \<Rightarrow> Some r)"

definition opt_digits :: "string \<Rightarrow> nat list option" where
  "opt_digits s = (if s = [] then Some [] else digit_seq s)"

definition mantissa :: "string \<Rightarrow> rat option" where
  "mantissa m =
     (case cut (\<lambda>c. c = CHR ''.'') m of
        (ip, None) \<Rightarrow> map_option (\<lambda>ds. of_nat (digits_value ds)) (digit_seq ip)
      | (ip, Some fp) \<Rightarrow>
          if ip = [] \<and> fp = [] then None
          else (case (opt_digits ip, opt_digits fp) of
                  (Some ds, Some fs) \<Rightarrow> Some (of_nat (digits_value (ds @ fs)) / 10 ^ length fs)
                | _ \<Rightarrow> None))"

definition py_float :: "string \<Rightarrow> rat option" where
  "py_float s =
     (let (neg, u) =
        (case s of
           [] \<Rightarrow> (False, s)
         | c # cs \<Rightarrow> if c = CHR ''-'' then (True, cs) else if c = CHR ''+'' then (False, cs)
                     else (False, s))
      in case cut (\<lambda>c. c = CHR ''e'' \<or> c = CHR ''E'') u of
           (m, ex) \<Rightarrow>
             (case (mantissa m, case ex of None \<Rightarrow> Some 0 | Some x \<Rightarrow> py_int x) of
                (Some v, Some e) \<Rightarrow>
                  Some ((if neg then - v else v)
                        * (if 0 \<le> e then 10 ^ nat e else 1 / 10 ^ nat (- e)))
              | _ \<Rightarrow> None))"

text \<open>\<^verbatim>\<open>int(x)\<close> of a float: truncation towards zero.\<close>

definition py_trunc :: "rat \<Rightarrow> int" where
  "py_trunc x = (if x < 0 then - \<lfloor>- x\<rfloor> else \<lfloor>x\<rfloor>)"

subsection \<open>Lists, dictionaries, exceptions\<close>

text \<open>\<^verbatim>\<open>xs[i]\<close>: a negative index counts from the end; out of range is an \<^verbatim>\<open>IndexError\<close>.\<close>

definition subscript :: "'a list \<Rightarrow> int \<Rightarrow> error + 'a" where
  "subscript xs i =
     (let n = int (length xs); j = (if i < 0 then i + n else i)
      in if 0 \<le> j \<and> j < n then Inr (xs ! nat j) else Inl IndexError)"

text \<open>Sequencing of computations that may raise: the first exception ends the run.\<close>

definition and_then :: "error + 'a \<Rightarrow> ('a \<Rightarrow> error + 'b) \<Rightarrow> error + 'b" where
  "and_then m f = (case m of Inl e \<Rightarrow> Inl e | Inr x \<Rightarrow> f x)"

text \<open>\<^verbatim>\<open>sep.join(xs)\<close>.\<close>

fun join :: "string \<Rightarrow> string list \<Rightarrow> string" where
  "join sep [] = []"
| "join sep [x] = x"
| "join sep (x # y # ys) = x @ sep @ join sep (y # ys)"

section \<open>The data model\<close>

text \<open>
  Modelled from the spec: the module \<^verbatim>\<open>graphics\<close> (\<^verbatim>\<open>Point\<close>, \<^verbatim>\<open>Line\<close>, \<^verbatim>\<open>Wireframe\<close>,
  \<^verbatim>\<open>Polygon\<close>, \<^verbatim>\<open>Color\<close>) is not among the sources. A point is an ordered pair or triple
  of coordinates; a drawable is one of the four variants and is known to this module
  only by the points it enumerates and by its construction from a list of points, so
  \<open>DWireframe ps\<close> and \<open>DPolygon ps\<close> stand for the drawable that enumerates \<open>ps\<close>. A
  color is the list of channels \<^verbatim>\<open>Color\<close> was called with.
\<close>

datatype point = Point2 rat rat | Point3 rat rat rat

datatype drawable =
  DPoint point | DLine point point | DWireframe "point list" | DPolygon "point list"

text \<open>The kind tags \<^verbatim>\<open>'point'\<close>, \<^verbatim>\<open>'line'\<close>, \<^verbatim>\<open>'wireframe'\<close>, \<^verbatim>\<open>'polygon'\<close>; unset is \<open>None\<close>.\<close>

datatype kind = KPoint | KLine | KWireframe | KPolygon

text \<open>
  The values a dictionary of attributes or of global directives holds: a string, a list
  of strings (\<^verbatim>\<open>globals_['mtllib']\<close>), a color. A dictionary keeps its keys in
  insertion order: an association list, written with \<^const>\<open>AList.update\<close>.
\<close>

datatype attr = AStr string | AStrs "string list" | AColor "int list"

type_synonym attrs = "(string \<times> attr) list"

record descriptor =
  kind :: "kind option"
  vertex_indexes :: "int list"
  attributes :: attrs

text \<open>\<^verbatim>\<open>_ObjDescriptor(name, attributes=...)\<close>; no caller passes a kind or indexes.\<close>

definition ObjDescriptor :: "string \<Rightarrow> attrs \<Rightarrow> descriptor" where
  "ObjDescriptor nm kwargs =
     \<lparr>kind = None, vertex_indexes = [], attributes = AList.update ''name'' (AStr nm) kwargs\<rparr>"

text \<open>An open text file: its name and its content. Writing appends to the content.\<close>

record pyfile =
  file_name :: string
  file_content :: string

section \<open>The parser\<close>

type_synonym materials = "(string \<times> int list) list"

record pstate =
  descriptors :: "descriptor list"
  vertices :: "point option list"
  globals :: attrs
  materials :: materials
  current_obj :: "descriptor option"

text \<open>\<^verbatim>\<open>map(lambda x: int(float(x)*0xFF), words[1:])\<close>, consumed by \<^verbatim>\<open>Color(*...)\<close>.\<close>

fun channels :: "string list \<Rightarrow> error + int list" where
  "channels [] = Inr []"
| "channels (x # xs) =
     (case py_float x of
        None \<Rightarrow> Inl ValueError
      | Some r \<Rightarrow> and_then (channels xs) (\<lambda>cs. Inr (py_trunc (r * 255) # cs)))"

text \<open>
  The loop over the lines of one material library. The test \<^verbatim>\<open>head == '#'\<close> of the
  source reads the head of the \<^verbatim>\<open>mtllib\<close> line, so it never holds; a comment line of the
  library matches neither \<^verbatim>\<open>newmtl\<close> nor \<^verbatim>\<open>Kd\<close> and is passed over all the same.
\<close>

fun load_mtl :: "string list \<Rightarrow> string option \<Rightarrow> materials \<Rightarrow> error + materials" where
  "load_mtl [] mtl ms = Inr ms"
| "load_mtl (line # rest) mtl ms =
     (case split (strip line) of
        [] \<Rightarrow> load_mtl rest mtl ms
      | w # ws \<Rightarrow>
          if w = ''newmtl'' then
            (case ws of [] \<Rightarrow> Inl IndexError | n # _ \<Rightarrow> load_mtl rest (Some n) ms)
          else if w = ''Kd'' then
            (case mtl of
               None \<Rightarrow> Inl AssertionError
             | Some m \<Rightarrow>
                 (case channels ws of
                    Inl e \<Rightarrow> Inl e
                  | Inr color \<Rightarrow> load_mtl rest None (AList.update m color ms)))
          else load_mtl rest mtl ms)"

text \<open>
  \<^verbatim>\<open>for libname in body\<close>. The file system is a parameter: \<open>libs libname\<close> is the content
  of \<^verbatim>\<open>dirname + '/' + libname\<close>, or \<open>None\<close> when \<^verbatim>\<open>builtins.open\<close> cannot open it.
\<close>

fun load_libs ::
  "(string \<Rightarrow> string option) \<Rightarrow> string list \<Rightarrow> string list \<Rightarrow> pstate \<Rightarrow> error + pstate" where
  "load_libs libs body [] st = Inr st"
| "load_libs libs body (libname # rest) st =
     (case libs libname of
        None \<Rightarrow> Inl FileNotFoundError
      | Some content \<Rightarrow>
          (case load_mtl (file_lines content) None (materials st) of
             Inl e \<Rightarrow> Inl e
           | Inr ms \<Rightarrow>
               load_libs libs body rest
                 (st\<lparr>globals := AList.update ''mtllib'' (AStrs body) (globals st),
                     materials := ms\<rparr>)))"

text \<open>\<^verbatim>\<open>for v in body: current_obj.vertex_indexes.append(int(v))\<close>.\<close>

fun ints :: "string list \<Rightarrow> error + int list" where
  "ints [] = Inr []"
| "ints (v # vs) =
     (case py_int v of
        None \<Rightarrow> Inl ValueError
      | Some i \<Rightarrow> and_then (ints vs) (\<lambda>r. Inr (i # r)))"

text \<open>
  One turn of the loop \<^verbatim>\<open>for line in file\<close>: \<open>parse_words\<close> is the body of the loop
  after \<^verbatim>\<open>words = line.strip().split()\<close>.
\<close>

definition parse_words ::
  "(string \<Rightarrow> string option) \<Rightarrow> string list \<Rightarrow> pstate \<Rightarrow> error + pstate" where
  "parse_words libs ws st =
     (case ws of
        [] \<Rightarrow> Inr st
      | head # body \<Rightarrow>
          if head = ''#'' then Inr st
          else if head = ''mtllib'' then load_libs libs body body st
          else if head = ''v'' then
            (case body of
               x # y # _ \<Rightarrow>
                 (case py_float x of
                    None \<Rightarrow> Inl ValueError
                  | Some fx \<Rightarrow>
                      (case py_float y of
                         None \<Rightarrow> Inl ValueError
                       | Some fy \<Rightarrow> Inr (st\<lparr>vertices := vertices st @ [Some (Point2 fx fy)]\<rparr>)))
             | _ \<Rightarrow> Inl ValueError)
          else if head = ''o'' then
            (let ds = (case current_obj st of
                         None \<Rightarrow> descriptors st
                       | Some cur \<Rightarrow>
                           if kind cur \<noteq> None then descriptors st @ [cur] else descriptors st)
             in case body of
                  [] \<Rightarrow> Inl IndexError
                | nm # _ \<Rightarrow> Inr (st\<lparr>descriptors := ds, current_obj := Some (ObjDescriptor nm [])\<rparr>))
          else if head = ''usemtl'' then
            (case current_obj st of
               None \<Rightarrow> Inl AssertionError
             | Some cur \<Rightarrow>
                 (case body of
                    [] \<Rightarrow> Inl IndexError
                  | mtl # _ \<Rightarrow>
                      (case map_of (materials st) mtl of
                         None \<Rightarrow> Inl KeyError
                       | Some color \<Rightarrow>
                           Inr (st\<lparr>current_obj := Some (cur\<lparr>attributes :=
                                  AList.update ''color'' (AColor color)
                                    (AList.update ''usemtl'' (AStr mtl) (attributes cur))\<rparr>)\<rparr>))))
          else if head = ''p'' then
            (case current_obj st of
               None \<Rightarrow> Inl AssertionError
             | Some cur \<Rightarrow>
                 (case body of
                    [] \<Rightarrow> Inl IndexError
                  | v # _ \<Rightarrow>
                      (case py_int v of
                         None \<Rightarrow> Inl ValueError
                       | Some i \<Rightarrow>
                           Inr (st\<lparr>current_obj := Some (cur\<lparr>kind := Some KPoint,
                                  vertex_indexes := vertex_indexes cur @ [i]\<rparr>)\<rparr>))))
          else if head = ''l'' then
            (case current_obj st of
               None \<Rightarrow> Inl AssertionError
             | Some cur \<Rightarrow>
                 and_then (ints body) (\<lambda>is.
                   Inr (st\<lparr>current_obj := Some (cur\<lparr>
                          kind := Some (if length body > 2 then KWireframe else KLine),
                          vertex_indexes := vertex_indexes cur @ is\<rparr>)\<rparr>)))
          else if head = ''f'' then
            (case current_obj st of
               None \<Rightarrow> Inl AssertionError
             | Some cur \<Rightarrow>
                 and_then (ints body) (\<lambda>is.
                   Inr (st\<lparr>current_obj := Some (cur\<lparr>kind := Some KPolygon,
                          vertex_indexes := vertex_indexes cur @ is\<rparr>)\<rparr>)))
          else Inr st)"

definition parse_line :: "(string \<Rightarrow> string option) \<Rightarrow> string \<Rightarrow> pstate \<Rightarrow> error + pstate" where
  "parse_line libs line st = parse_words libs (split (strip line)) st"

fun parse_lines :: "(string \<Rightarrow> string option) \<Rightarrow> string list \<Rightarrow> pstate \<Rightarrow> error + pstate" where
  "parse_lines libs [] st = Inr st"
| "parse_lines libs (line # rest) st =
     (case parse_line libs line st of Inl e \<Rightarrow> Inl e | Inr st' \<Rightarrow> parse_lines libs rest st')"

text \<open>\<^verbatim>\<open>path.basename(file.name).split('.')[0]\<close>: the base name up to its first dot.\<close>

definition basename :: "string \<Rightarrow> string" where
  "basename p = rev (takeWhile (\<lambda>c. c \<noteq> CHR ''/'') (rev p))"

definition stem :: "string \<Rightarrow> string" where
  "stem p = takeWhile (\<lambda>c. c \<noteq> CHR ''.'') (basename p)"

definition initial_state :: "string \<Rightarrow> pstate" where
  "initial_state p =
     \<lparr>descriptors = [], vertices = [None], globals = [], materials = [],
      current_obj = Some (ObjDescriptor (stem p) [])\<rparr>"

text \<open>After the loop: \<^verbatim>\<open>if current_obj is not None: descriptors.append(current_obj)\<close>.\<close>

definition finish :: "pstate \<Rightarrow> descriptor list \<times> point option list \<times> attrs" where
  "finish st =
     ((case current_obj st of None \<Rightarrow> descriptors st | Some cur \<Rightarrow> descriptors st @ [cur]),
      vertices st, globals st)"

definition parse_objs ::
  "(string \<Rightarrow> string option) \<Rightarrow> pyfile \<Rightarrow> error + descriptor list \<times> point option list \<times> attrs" where
  "parse_objs libs f =
     (case parse_lines libs (file_lines (file_content f)) (initial_state (file_name f)) of
        Inl e \<Rightarrow> Inl e
      | Inr st \<Rightarrow> Inr (finish st))"

section \<open>The serializer\<close>

text \<open>
  What a run has written to the file, and the exception that ended it, if any: text
  written before an exception stays written.
\<close>

type_synonym out = "string \<times> error option"

definition emit :: "string \<Rightarrow> out" where
  "emit s = (s, None)"

definition raise :: "error \<Rightarrow> out" where
  "raise e = ([], Some e)"

definition seq :: "out \<Rightarrow> out \<Rightarrow> out" where
  "seq a b = (case snd a of Some e \<Rightarrow> a | None \<Rightarrow> (fst a @ fst b, snd b))"

fun seq_all :: "out list \<Rightarrow> out" where
  "seq_all [] = emit []"
| "seq_all (a # as) = seq a (seq_all as)"

text \<open>
  Modelled from the spec: \<^verbatim>\<open>utilities.iter_no_str\<close> is not among the sources. ``A scalar
  value is written as a single token and any other iterable value is flattened
  token-by-token'': \<^verbatim>\<open>for val in iter_no_str(v): file.write(val + " ")\<close>. A color is
  neither a string nor an iterable of strings, so \<^verbatim>\<open>val + " "\<close> is a \<^verbatim>\<open>TypeError\<close>.
\<close>

definition write_values :: "attr \<Rightarrow> out" where
  "write_values v =
     (case v of
        AStr s \<Rightarrow> emit (s @ '' '')
      | AStrs xs \<Rightarrow> emit (concat (map (\<lambda>x. x @ '' '') xs))
      | AColor cs \<Rightarrow> raise TypeError)"

text \<open>
  \<^verbatim>\<open>x, y, *z = vertex; z = z[0] if z else 1.0; file.write(f"v {x} {y} {z} 1.0\n")\<close>.
  The parameter \<open>fmt\<close> is the text an f-string prints for a coordinate.
\<close>

definition dump_vertex :: "(rat \<Rightarrow> string) \<Rightarrow> point option \<Rightarrow> out" where
  "dump_vertex fmt v =
     (case v of
        None \<Rightarrow> raise TypeError
      | Some (Point2 x y) \<Rightarrow>
          emit (''v '' @ fmt x @ '' '' @ fmt y @ '' '' @ fmt 1 @ '' 1.0'' @ [newline])
      | Some (Point3 x y z) \<Rightarrow>
          emit (''v '' @ fmt x @ '' '' @ fmt y @ '' '' @ fmt z @ '' 1.0'' @ [newline]))"

definition dump_global :: "string \<times> attr \<Rightarrow> out" where
  "dump_global kv = seq (emit (fst kv @ '' '')) (seq (write_values (snd kv)) (emit [newline]))"

definition dump_attribute :: "string \<times> attr \<Rightarrow> out" where
  "dump_attribute kv =
     (if fst kv \<in> set [''name'', ''color''] then emit []
      else seq (emit (fst kv @ '' '')) (seq (write_values (snd kv)) (emit [newline])))"

text \<open>The geometry line, chosen by \<^verbatim>\<open>obj.kind.lower()\<close>.\<close>

definition dump_geometry :: "descriptor \<Rightarrow> out" where
  "dump_geometry obj =
     (case kind obj of
        None \<Rightarrow> raise AttributeError
      | Some KPoint \<Rightarrow>
          (case vertex_indexes obj of
             [] \<Rightarrow> raise IndexError
           | i # _ \<Rightarrow> emit (''p '' @ str_int i @ [newline]))
      | Some KLine \<Rightarrow>
          (case vertex_indexes obj of
             [a, b] \<Rightarrow> emit (''l '' @ str_int a @ '' '' @ str_int b @ [newline])
           | _ \<Rightarrow> raise ValueError)
      | Some KWireframe \<Rightarrow>
          seq (emit (join '' '' (''l'' # map str_int (vertex_indexes obj)))) (emit [newline])
      | Some KPolygon \<Rightarrow>
          seq (emit (join '' '' (''f'' # map str_int (vertex_indexes obj)))) (emit [newline]))"

text \<open>
  One turn of \<^verbatim>\<open>for obj in descriptors\<close>. The constructor stores the name as a string,
  so the \<^verbatim>\<open>KeyError\<close> of \<^verbatim>\<open>obj.attributes['name']\<close> is there for totality only.
\<close>

definition dump_obj :: "descriptor \<Rightarrow> out" where
  "dump_obj obj =
     seq (case map_of (attributes obj) ''name'' of
            Some (AStr nm) \<Rightarrow> emit (''o '' @ nm @ [newline])
          | _ \<Rightarrow> raise KeyError)
       (seq (seq_all (map dump_attribute (attributes obj))) (dump_geometry obj))"

definition dump_objs ::
  "(rat \<Rightarrow> string) \<Rightarrow> descriptor list \<Rightarrow> point option list \<Rightarrow> attrs \<Rightarrow> out" where
  "dump_objs fmt ds vs gs =
     seq (seq_all (map (dump_vertex fmt) (drop 1 vs)))
       (seq (seq_all (map dump_global gs)) (seq_all (map dump_obj ds)))"

section \<open>The session: class \<^verbatim>\<open>ObjFile\<close>\<close>

record ObjFile =
  self_file :: pyfile
  self_mode :: string
  self_descriptors :: "descriptor list"
  self_vertices :: "point option list"
  self_globals :: attrs

definition ObjFile_init ::
  "(string \<Rightarrow> string option) \<Rightarrow> pyfile \<Rightarrow> string \<Rightarrow> attrs \<Rightarrow> error + ObjFile" where
  "ObjFile_init libs f m kwargs =
     (if m \<in> set [''r'', ''r+''] then
        (case parse_objs libs f of
           Inl e \<Rightarrow> Inl e
         | Inr (ds, vs, gs) \<Rightarrow>
             Inr \<lparr>self_file = f, self_mode = m, self_descriptors = ds, self_vertices = vs,
                  self_globals = gs\<rparr>)
      else if m \<in> set [''w'', ''w+''] then
        Inr \<lparr>self_file = f, self_mode = m, self_descriptors = [], self_vertices = [None],
             self_globals = kwargs\<rparr>
      else Inl AssertionError)"

text \<open>\<^verbatim>\<open>Point(*v)\<close> on an entry of the vertex table; the sentinel \<^verbatim>\<open>None\<close> cannot be unpacked.\<close>

definition Point_of :: "point option \<Rightarrow> error + point" where
  "Point_of v = (case v of None \<Rightarrow> Inl TypeError | Some p \<Rightarrow> Inr p)"

text \<open>\<^verbatim>\<open>[Point(*(self._vertices[v])) for v in obj.vertex_indexes]\<close>.\<close>

fun points_at :: "point option list \<Rightarrow> int list \<Rightarrow> error + point list" where
  "points_at vs [] = Inr []"
| "points_at vs (i # is) =
     and_then (subscript vs i) (\<lambda>v.
     and_then (Point_of v) (\<lambda>p.
     and_then (points_at vs is) (\<lambda>ps. Inr (p # ps))))"

definition ObjFile_obj_to_drawable ::
  "point option list \<Rightarrow> descriptor \<Rightarrow> error + drawable option \<times> attrs" where
  "ObjFile_obj_to_drawable vs obj =
     (case kind obj of
        None \<Rightarrow> Inr (None, attributes obj)
      | Some KPoint \<Rightarrow>
          and_then (subscript (vertex_indexes obj) 0) (\<lambda>i.
          and_then (subscript vs i) (\<lambda>v.
          and_then (Point_of v) (\<lambda>p. Inr (Some (DPoint p), attributes obj))))
      | Some KLine \<Rightarrow>
          and_then (subscript (vertex_indexes obj) 0) (\<lambda>i.
          and_then (subscript vs i) (\<lambda>a.
          and_then (subscript (vertex_indexes obj) 1) (\<lambda>j.
          and_then (subscript vs j) (\<lambda>b.
          and_then (Point_of a) (\<lambda>pa.
          and_then (Point_of b) (\<lambda>pb. Inr (Some (DLine pa pb), attributes obj)))))))
      | Some KWireframe \<Rightarrow>
          and_then (points_at vs (vertex_indexes obj)) (\<lambda>ps.
            Inr (Some (DWireframe ps), attributes obj))
      | Some KPolygon \<Rightarrow>
          and_then (points_at vs (vertex_indexes obj)) (\<lambda>ps.
            Inr (Some (DPolygon ps), attributes obj)))"

text \<open>\<^verbatim>\<open>__iter__\<close>, run to its end: \<^verbatim>\<open>[obj for obj in self]\<close>.\<close>

fun ObjFile_iter ::
  "point option list \<Rightarrow> descriptor list \<Rightarrow> error + (drawable option \<times> attrs) list" where
  "ObjFile_iter vs [] = Inr []"
| "ObjFile_iter vs (obj # rest) =
     and_then (ObjFile_obj_to_drawable vs obj) (\<lambda>r.
     and_then (ObjFile_iter vs rest) (\<lambda>rs. Inr (r # rs)))"

definition ObjFile_read :: "ObjFile \<Rightarrow> error + (drawable option \<times> attrs) list" where
  "ObjFile_read s =
     (if self_mode s \<in> set [''r'', ''r+''] then ObjFile_iter (self_vertices s) (self_descriptors s)
      else Inl AssertionError)"

text \<open>
  \<^verbatim>\<open>for p in drawable: self._vertices.append(Point(*p));
  obj.vertex_indexes.append(len(self._vertices) - 1)\<close>.
\<close>

fun register ::
  "point list \<Rightarrow> point option list \<times> int list \<Rightarrow> point option list \<times> int list" where
  "register [] acc = acc"
| "register (p # ps) acc =
     register ps (fst acc @ [Some p], snd acc @ [int (length (fst acc @ [Some p])) - 1])"

definition ObjFile_drawable_to_obj ::
  "point option list \<Rightarrow> drawable \<Rightarrow> string \<Rightarrow> attrs \<Rightarrow> descriptor \<times> point option list" where
  "ObjFile_drawable_to_obj vs d nm kwargs =
     (let obj = ObjDescriptor nm kwargs in
      case d of
        DPoint p \<Rightarrow>
          (let vs' = vs @ [Some p]
           in (obj\<lparr>kind := Some KPoint, vertex_indexes := [int (length vs') - 1]\<rparr>, vs'))
      | DLine a b \<Rightarrow>
          (let vs' = vs @ [Some a, Some b]; n = int (length vs') - 1
           in (obj\<lparr>kind := Some KLine, vertex_indexes := [n - 1, n]\<rparr>, vs'))
      | DWireframe ps \<Rightarrow>
          (case register ps (vs, vertex_indexes obj) of
             (vs', is) \<Rightarrow> (obj\<lparr>kind := Some KWireframe, vertex_indexes := is\<rparr>, vs'))
      | DPolygon ps \<Rightarrow>
          (case register ps (vs, vertex_indexes obj) of
             (vs', is) \<Rightarrow> (obj\<lparr>kind := Some KPolygon, vertex_indexes := is\<rparr>, vs')))"

definition ObjFile_write :: "ObjFile \<Rightarrow> drawable \<Rightarrow> string \<Rightarrow> attrs \<Rightarrow> error + ObjFile" where
  "ObjFile_write s d nm kwargs =
     (if self_mode s \<in> set [''w'', ''w+'', ''r+''] then
        (case ObjFile_drawable_to_obj (self_vertices s) d nm kwargs of
           (obj, vs') \<Rightarrow>
             Inr (s\<lparr>self_descriptors := self_descriptors s @ [obj], self_vertices := vs'\<rparr>))
      else Inl AssertionError)"

text \<open>
  \<^verbatim>\<open>close\<close> (and \<^verbatim>\<open>__exit__\<close>, which has the same body): the file as it is left, and the
  exception of the serializer, if it raised one.
\<close>

definition ObjFile_close :: "(rat \<Rightarrow> string) \<Rightarrow> ObjFile \<Rightarrow> pyfile \<times> error option" where
  "ObjFile_close fmt s =
     (if self_mode s \<in> set [''w'', ''w+'', ''r+''] \<and> length (self_descriptors s) > 0 then
        (case dump_objs fmt (self_descriptors s) (self_vertices s) (self_globals s) of
           (written, err) \<Rightarrow>
             ((self_file s)\<lparr>file_content := file_content (self_file s) @ written\<rparr>, err))
      else (self_file s, None))"

section \<open>The module-level \<^verbatim>\<open>open\<close>\<close>

text \<open>
  \<^verbatim>\<open>builtins.open(path, mode)\<close> over a file system \<open>fs\<close> that maps a path to its content.
  Of the mode strings that pass the check of \<open>obj_open\<close>, Python accepts \<^verbatim>\<open>'r'\<close> and
  \<^verbatim>\<open>'w+'\<close> and raises \<^verbatim>\<open>ValueError\<close> on the others (\<^verbatim>\<open>'r+w'\<close>, and spellings with capital
  letters); \<^verbatim>\<open>'r+'\<close> and \<^verbatim>\<open>'w'\<close> are given for a session built directly from a file.
\<close>

definition builtins_open :: "(string \<Rightarrow> string option) \<Rightarrow> string \<Rightarrow> string \<Rightarrow> error + pyfile" where
  "builtins_open fs path m =
     (if m \<in> set [''r'', ''r+''] then
        (case fs path of
           None \<Rightarrow> Inl FileNotFoundError
         | Some c \<Rightarrow> Inr \<lparr>file_name = path, file_content = c\<rparr>)
      else if m \<in> set [''w'', ''w+''] then Inr \<lparr>file_name = path, file_content = []\<rparr>
      else Inl ValueError)"

text \<open>
  \<^verbatim>\<open>if mode.lower() not in ('r', 'r+' 'w', 'w+'): raise ValueError("File mode should be
  one of 'r', 'r+', 'w' or 'w+'")\<close>. The tuple has three elements: Python joins the
  adjacent literals \<^verbatim>\<open>'r+' 'w'\<close> into the one string \<^verbatim>\<open>'r+w'\<close>.
\<close>

definition accepted_modes :: "string list" where
  "accepted_modes = [''r'', ''r+'' @ ''w'', ''w+'']"

definition obj_open ::
  "(string \<Rightarrow> string option) \<Rightarrow> (string \<Rightarrow> string option) \<Rightarrow> string \<Rightarrow> string \<Rightarrow> attrs
     \<Rightarrow> error + ObjFile" where
  "obj_open fs libs path m kwargs =
     (if lower m \<notin> set accepted_modes then Inl ValueError
      else and_then (builtins_open fs path m) (\<lambda>f. ObjFile_init libs f m kwargs))"

section \<open>Vocabulary of the properties\<close>

text \<open>A token: a non-empty string without white space, what \<^verbatim>\<open>split()\<close> returns as one word.\<close>

definition token :: "string \<Rightarrow> bool" where
  "token t = (t \<noteq> [] \<and> list_all (\<lambda>c. \<not> is_space c) t)"

text \<open>A client that calls \<^verbatim>\<open>write(drawable, name, **kwargs)\<close> for each item of a list.\<close>

fun write_all :: "ObjFile \<Rightarrow> (drawable \<times> string \<times> attrs) list \<Rightarrow> error + ObjFile" where
  "write_all s [] = Inr s"
| "write_all s (item # rest) =
     and_then (ObjFile_write s (fst item) (fst (snd item)) (snd (snd item)))
       (\<lambda>s'. write_all s' rest)"




text \<open>
  Every vertex index of every descriptor lies between two bounds; and the invariant of
  a session that is written to: the vertex table holds its sentinel, and every index is
  at least 1 and at most the last index of the table.
\<close>

definition indexes_between :: "int \<Rightarrow> int \<Rightarrow> descriptor list \<Rightarrow> bool" where
  "indexes_between lo hi ds =
     list_all (\<lambda>obj. list_all (\<lambda>i. lo \<le> i \<and> i \<le> hi) (vertex_indexes obj)) ds"

definition written_in_range :: "ObjFile \<Rightarrow> bool" where
  "written_in_range s =
     (self_vertices s \<noteq> []
      \<and> indexes_between 1 (int (length (self_vertices s)) - 1) (self_descriptors s))"




subsection \<open>Vocabulary of the round trip\<close>

text \<open>
  A string without a line break; the directives the parser knows; and an attribute that
  a written file passes by the parser: one the serializer skips (\<^verbatim>\<open>name\<close>, \<^verbatim>\<open>color\<close>),
  or one whose key is a token other than a directive and whose values hold no line
  break, so that its line is one line that the parser ignores.
\<close>

definition no_breaks :: "string \<Rightarrow> bool" where
  "no_breaks s = list_all (\<lambda>c. c \<noteq> newline \<and> c \<noteq> carriage_return) s"





















section \<open>Tokens, lines and numbers\<close>

lemma is_space_newline: "is_space newline"
  by (simp add: is_space_def newline_def)

lemma is_space_blank: "is_space CHR '' ''"
  by (simp add: is_space_def)

lemma split_ws_spaces: "list_all is_space s \<Longrightarrow> split_ws w s = (if w = [] then [] else [w])"
  by (induction s arbitrary: w) auto

lemma split_ws_leading: "split_ws [] (dropWhile is_space s) = split_ws [] s"
  by (induction s) auto

lemma split_ws_trailing: "list_all is_space b \<Longrightarrow> split_ws w (a @ b) = split_ws w a"
  by (induction a arbitrary: w) (auto simp: split_ws_spaces)

lemma split_strip: "split (strip s) = split s"
proof -
  let ?t = "dropWhile is_space s"
  have "?t = rev (dropWhile is_space (rev ?t)) @ rev (takeWhile is_space (rev ?t))"
    by (metis rev_append rev_rev_ident takeWhile_dropWhile_id)
  moreover have "list_all is_space (rev (takeWhile is_space (rev ?t)))"
    by (simp add: list_all_iff) (meson set_takeWhileD)
  ultimately have "split_ws [] ?t = split_ws [] (rev (dropWhile is_space (rev ?t)))"
    by (metis split_ws_trailing)
  then show ?thesis
    by (simp add: split_def strip_def split_ws_leading)
qed

lemma split_ws_word: "list_all (\<lambda>c. \<not> is_space c) t \<Longrightarrow> split_ws w (t @ rest) = split_ws (w @ t) rest"
  by (induction t arbitrary: w) auto

lemma split_token_space:
  "token t \<Longrightarrow> is_space c \<Longrightarrow> split_ws [] (t @ c # rest) = t # split_ws [] rest"
  by (simp add: token_def split_ws_word)

lemma split_token_end: "token t \<Longrightarrow> split_ws [] t = [t]"
  using split_ws_word [of t "[]" "[]"] by (simp add: token_def)

lemma split_join:
  "list_all token ts \<Longrightarrow> is_space c \<Longrightarrow> split_ws [] (join '' '' ts @ c # rest) = ts @ split_ws [] rest"
proof (induction "'' ''" ts rule: join.induct)
  case 1
  then show ?case by simp
next
  case (2 x)
  then show ?case by (simp add: split_token_space)
next
  case (3 x y ys)
  then show ?case
    using split_token_space [of x "CHR '' ''" "join '' '' (y # ys) @ c # rest"]
    by (simp add: is_space_blank)
qed


lemma digit_val_digit_char: "d < 10 \<Longrightarrow> digit_val (digit_char d) = Some d"
  by (simp add: digit_val_def digit_char_def Let_def)

lemma digit_seq_snoc:
  "digit_seq s = Some ds \<Longrightarrow> digit_val c = Some d \<Longrightarrow> digit_seq (s @ [c]) = Some (ds @ [d])"
proof (induction s arbitrary: ds rule: digit_seq.induct)
  case 1
  then show ?case by simp
next
  case (2 a)
  then have "c \<noteq> CHR ''_''" by (auto simp: digit_val_def)
  with 2 show ?case by (auto split: option.splits)
next
  case (3 a b cs)
  then show ?case by (auto split: option.splits if_splits)
qed

lemma digit_seq_str_nat: "\<exists>ds. digit_seq (str_nat n) = Some ds \<and> digits_value ds = n"
proof (induction n rule: str_nat.induct)
  case (1 n)
  show ?case
  proof (cases "n < 10")
    case True
    then show ?thesis
      by (subst str_nat.simps) (simp add: digit_val_digit_char digits_value_def)
  next
    case False
    with 1 obtain ds where ds: "digit_seq (str_nat (n div 10)) = Some ds" "digits_value ds = n div 10"
      by auto
    have "digit_seq (str_nat (n div 10) @ [digit_char (n mod 10)]) = Some (ds @ [n mod 10])"
      using ds(1) by (rule digit_seq_snoc) (simp add: digit_val_digit_char)
    moreover have "digits_value (ds @ [n mod 10]) = n"
      using ds(2) by (simp add: digits_value_def)
    ultimately show ?thesis
      using False by (subst str_nat.simps) auto
  qed
qed

lemma py_nat_str_nat: "py_nat (str_nat n) = Some n"
  using digit_seq_str_nat [of n] by (auto simp: py_nat_def)

lemma str_nat_digits: "list_all (\<lambda>c. digit_val c \<noteq> None) (str_nat n) \<and> str_nat n \<noteq> []"
proof (induction n rule: str_nat.induct)
  case (1 n)
  show ?case
  proof (cases "n < 10")
    case True
    then show ?thesis by (subst (1 2) str_nat.simps) (simp add: digit_val_digit_char)
  next
    case False
    with 1 show ?thesis by (subst (1 2) str_nat.simps) (simp add: digit_val_digit_char)
  qed
qed

lemma py_int_str_int: "py_int (str_int i) = Some i"
proof (cases "i < 0")
  case True
  then show ?thesis by (simp add: py_int_def str_int_def py_nat_str_nat)
next
  case False
  obtain c cs where s: "str_nat (nat i) = c # cs"
    using str_nat_digits [of "nat i"] by (cases "str_nat (nat i)") auto
  then have "digit_val c \<noteq> None"
    using str_nat_digits [of "nat i"] by simp
  then have "c \<noteq> CHR ''-''" "c \<noteq> CHR ''+''"
    by (auto simp: digit_val_def)
  moreover have "py_nat (c # cs) = Some (nat i)"
    using py_nat_str_nat [of "nat i"] s by simp
  ultimately show ?thesis
    using False s by (simp add: py_int_def str_int_def)
qed

lemma digit_not_space: "digit_val c \<noteq> None \<Longrightarrow> \<not> is_space c"
  by (auto simp: digit_val_def is_space_def Let_def split: if_splits)


lemma ints_str_int: "ints (map str_int is) = Inr is"
  by (induction "is") (simp_all add: py_int_str_int and_then_def)

lemma words: "split (strip s) = split_ws [] s"
  using split_strip [of s] by (simp add: split_def)

lemma digit_some_not_space: "digit_val c = Some d \<Longrightarrow> is_space c \<Longrightarrow> False"
  using digit_not_space [of c] by simp

lemma digit_seq_chars: "digit_seq s = Some ds \<Longrightarrow> list_all (\<lambda>c. \<not> is_space c) s \<and> s \<noteq> []"
proof (induction s arbitrary: ds rule: digit_seq.induct)
  case 1
  then show ?case by simp
next
  case (2 c)
  then show ?case by (auto split: option.splits dest: digit_some_not_space)
next
  case (3 c c' cs)
  have "\<not> is_space CHR ''_''" by (simp add: is_space_def)
  with 3 show ?case
    by (auto split: option.splits if_splits dest: digit_some_not_space)
qed

lemma token_py_int: "py_int t = Some i \<Longrightarrow> token t"
proof -
  assume a: "py_int t = Some i"
  have s: "\<not> is_space CHR ''-''" "\<not> is_space CHR ''+''" by (simp_all add: is_space_def)
  from a obtain c cs where t: "t = c # cs" by (cases t) (auto simp: py_int_def)
  show "token t"
    using a s unfolding t token_def py_int_def py_nat_def
    by (auto split: if_splits dest: digit_seq_chars)
qed

lemma tokens_ints: "ints ts = Inr is \<Longrightarrow> list_all token ts"
  by (induction ts arbitrary: "is")
     (auto simp: and_then_def split: option.splits sum.splits dest: token_py_int)

lemma token_letter: "token ''l''" "token ''f''" "token ''p''" "token ''v''" "token ''o''"
  by (simp_all add: token_def is_space_def)

lemma words_join: "list_all token ts \<Longrightarrow> split (strip (join '' '' ts @ [newline])) = ts"
  using split_join [of ts newline "[]"] by (simp add: words is_space_newline)

lemma seq_emit: "seq (emit a) (emit b) = emit (a @ b)"
  by (simp add: seq_def emit_def)

lemma length_ints: "ints ts = Inr is \<Longrightarrow> length is = length ts"
  by (induction ts arbitrary: "is") (auto simp: and_then_def split: option.splits sum.splits)

lemma parse_p_line:
  assumes "py_int t = Some i" and "current_obj st = Some cur"
  shows "parse_line libs (''p '' @ t @ [newline]) st
         = Inr (st\<lparr>current_obj := Some (cur\<lparr>kind := Some KPoint,
                  vertex_indexes := vertex_indexes cur @ [i]\<rparr>)\<rparr>)"
proof -
  have "list_all token [''p'', t]"
    using assms(1) by (simp add: token_letter token_py_int)
  then have "split (strip (join '' '' [''p'', t] @ [newline])) = [''p'', t]"
    by (rule words_join)
  then show ?thesis
    using assms by (simp add: parse_line_def parse_words_def)
qed

lemma parse_l_line:
  assumes "ints ts = Inr js" and "current_obj st = Some cur"
  shows "parse_line libs (join '' '' (''l'' # ts) @ [newline]) st
         = Inr (st\<lparr>current_obj := Some (cur\<lparr>
                  kind := Some (if length ts > 2 then KWireframe else KLine),
                  vertex_indexes := vertex_indexes cur @ js\<rparr>)\<rparr>)"
proof -
  have "list_all token (''l'' # ts)"
    using assms(1) by (simp add: token_letter tokens_ints)
  then have "split (strip (join '' '' (''l'' # ts) @ [newline])) = ''l'' # ts"
    by (rule words_join)
  then show ?thesis
    using assms by (simp add: parse_line_def parse_words_def and_then_def)
qed

lemma parse_f_line:
  assumes "ints ts = Inr js" and "current_obj st = Some cur"
  shows "parse_line libs (join '' '' (''f'' # ts) @ [newline]) st
         = Inr (st\<lparr>current_obj := Some (cur\<lparr>kind := Some KPolygon,
                  vertex_indexes := vertex_indexes cur @ js\<rparr>)\<rparr>)"
proof -
  have "list_all token (''f'' # ts)"
    using assms(1) by (simp add: token_letter tokens_ints)
  then have "split (strip (join '' '' (''f'' # ts) @ [newline])) = ''f'' # ts"
    by (rule words_join)
  then show ?thesis
    using assms by (simp add: parse_line_def parse_words_def and_then_def)
qed

section \<open>The mode check of \<^verbatim>\<open>open\<close>\<close>

text \<open>
  Claim C2. The module-level \<^verbatim>\<open>open\<close> is to accept exactly the modes \<^verbatim>\<open>'r'\<close>, \<^verbatim>\<open>'r+'\<close>,
  \<^verbatim>\<open>'w'\<close> and \<^verbatim>\<open>'w+'\<close>. The code rejects \<^verbatim>\<open>'w'\<close> and \<^verbatim>\<open>'r+'\<close> with the \<^verbatim>\<open>ValueError\<close> whose
  message names them as valid, whatever the file system holds: the comma missing in its
  tuple makes the accepted strings \<^verbatim>\<open>'r'\<close>, \<^verbatim>\<open>'r+w'\<close> and \<^verbatim>\<open>'w+'\<close>. The modes \<^verbatim>\<open>'r'\<close> and \<^verbatim>\<open>'w+'\<close>
  pass the check, and so does \<^verbatim>\<open>'r+w'\<close>.
\<close>

theorem open_rejects_w_and_r_plus:
  "obj_open fs libs path ''w'' kwargs = Inl ValueError
   \<and> obj_open fs libs path ''r+'' kwargs = Inl ValueError
   \<and> lower ''r'' \<in> set accepted_modes \<and> lower ''w+'' \<in> set accepted_modes
   \<and> lower ''r+w'' \<in> set accepted_modes"
  by (simp add: obj_open_def accepted_modes_def lower_def lower_char_def)

section \<open>Mode enforcement\<close>

text \<open>
  Claim C6. On a session built in mode \<^verbatim>\<open>'w'\<close> or \<^verbatim>\<open>'w+'\<close>, \<^verbatim>\<open>read\<close> fails with the
  \<^verbatim>\<open>AssertionError\<close> of its mode assertion; on a session built in mode \<^verbatim>\<open>'r'\<close>, \<^verbatim>\<open>write\<close>
  fails with the \<^verbatim>\<open>AssertionError\<close> of its own. In the other modes the assertion passes:
  \<^verbatim>\<open>read\<close> in \<^verbatim>\<open>'r'\<close> and \<^verbatim>\<open>'r+'\<close> is the iteration, \<^verbatim>\<open>write\<close> in \<^verbatim>\<open>'w'\<close>, \<^verbatim>\<open>'w+'\<close> and \<^verbatim>\<open>'r+'\<close>
  returns the extended session.
\<close>

theorem mode_enforcement:
  assumes "ObjFile_init libs f m kwargs = Inr s"
  shows "(m = ''w'' \<or> m = ''w+'' \<longrightarrow> ObjFile_read s = Inl AssertionError)
       \<and> (m = ''r'' \<longrightarrow> ObjFile_write s d nm kw = Inl AssertionError)
       \<and> (m = ''r'' \<or> m = ''r+'' \<longrightarrow>
            ObjFile_read s = ObjFile_iter (self_vertices s) (self_descriptors s))
       \<and> (m \<noteq> ''r'' \<longrightarrow> (\<exists>s'. ObjFile_write s d nm kw = Inr s'))"
proof -
  have m: "self_mode s = m" and ok: "m \<in> set [''r'', ''r+'', ''w'', ''w+'']"
    using assms
    by (auto simp: ObjFile_init_def split: if_splits sum.splits prod.splits)
  show ?thesis
    using m ok by (auto simp: ObjFile_read_def ObjFile_write_def split: prod.splits)
qed

theorem mode_enforcement_witness:
  "ObjFile_read \<lparr>self_file = \<lparr>file_name = ''a.obj'', file_content = []\<rparr>, self_mode = ''w'',
                  self_descriptors = [], self_vertices = [None], self_globals = []\<rparr>
     = Inl AssertionError
   \<and> ObjFile_write \<lparr>self_file = \<lparr>file_name = ''a.obj'', file_content = []\<rparr>, self_mode = ''r'',
                     self_descriptors = [ObjDescriptor ''a'' []], self_vertices = [None],
                     self_globals = []\<rparr> (DPoint (Point2 0 0)) ''p'' []
     = Inl AssertionError"
proof -
  let ?f = "\<lparr>file_name = ''a.obj'', file_content = []\<rparr>"
  have w: "ObjFile_init (\<lambda>_. None) ?f ''w'' [] =
             Inr \<lparr>self_file = ?f, self_mode = ''w'', self_descriptors = [],
                  self_vertices = [None], self_globals = []\<rparr>"
    by (simp add: ObjFile_init_def)
  have r: "ObjFile_init (\<lambda>_. None) ?f ''r'' [] =
             Inr \<lparr>self_file = ?f, self_mode = ''r'', self_descriptors = [ObjDescriptor ''a'' []],
                  self_vertices = [None], self_globals = []\<rparr>"
    by (simp add: ObjFile_init_def parse_objs_def file_lines_def initial_state_def finish_def
        stem_def basename_def)
  show ?thesis
    using mode_enforcement [OF w] mode_enforcement [OF r, of "DPoint (Point2 0 0)" "''p''" "[]"]
    by simp
qed

section \<open>The \<^verbatim>\<open>o\<close> directive and an accumulator without a kind\<close>

text \<open>
  Claim C10. When the parser meets an \<^verbatim>\<open>o\<close> directive while the kind of the current
  accumulator is unset, the accumulator is dropped: the state after the line is the state
  before it with a fresh accumulator of the new name, the descriptor list as it was, and
  the parse of the remaining lines, hence the returned descriptor list, is the one from
  that state. Neither side of the equations mentions the name or the attributes of the
  dropped accumulator.
\<close>

theorem o_discards_kindless:
  assumes "kind cur = None" and "split (strip line) = ''o'' # nm # others"
  shows "parse_line libs line (st\<lparr>current_obj := Some cur\<rparr>)
         = Inr (st\<lparr>current_obj := Some (ObjDescriptor nm [])\<rparr>)
       \<and> parse_lines libs (line # rest) (st\<lparr>current_obj := Some cur\<rparr>)
         = parse_lines libs rest (st\<lparr>current_obj := Some (ObjDescriptor nm [])\<rparr>)"
  using assms by (simp add: parse_line_def parse_words_def)

theorem o_discards_kindless_witness:
  "parse_lines (\<lambda>_. None) [''o b'', ''p 1'']
     \<lparr>descriptors = [], vertices = [None], globals = [], materials = [(''red'', [255, 0, 0])],
      current_obj = Some \<lparr>kind = None, vertex_indexes = [],
        attributes = [(''name'', AStr ''a''), (''usemtl'', AStr ''red''),
                      (''color'', AColor [255, 0, 0])]\<rparr>\<rparr>
   = Inr \<lparr>descriptors = [], vertices = [None], globals = [], materials = [(''red'', [255, 0, 0])],
      current_obj = Some \<lparr>kind = Some KPoint, vertex_indexes = [1],
        attributes = [(''name'', AStr ''b'')]\<rparr>\<rparr>"
proof -
  let ?cur = "\<lparr>kind = None, vertex_indexes = [],
        attributes = [(''name'', AStr ''a''), (''usemtl'', AStr ''red''),
                      (''color'', AColor [255, 0, 0])]\<rparr>"
  let ?st = "\<lparr>descriptors = [], vertices = [None], globals = [], materials = [(''red'', [255::int, 0, 0])],
      current_obj = None\<rparr>"
  have k: "kind ?cur = None" by simp
  have w: "split (strip ''o b'') = ''o'' # ''b'' # []"
    by (simp add: words is_space_def)
  have p: "split (strip ''p 1'') = [''p'', ''1'']"
    by (simp add: words is_space_def)
  have i: "py_int ''1'' = Some 1"
    by (simp add: py_int_def py_nat_def digit_val_def digits_value_def)
  show ?thesis
    using o_discards_kindless [OF k w, where libs = "\<lambda>_. None" and rest = "[''p 1'']" and st = ?st]
    by (simp add: parse_line_def parse_words_def p i ObjDescriptor_def)
qed

section \<open>Shape classification\<close>

text \<open>
  Claim C7. Parsing the line \<^verbatim>\<open>p i\<close> sets the kind Point; a line \<^verbatim>\<open>l\<close> with its indices
  sets Line for up to two indices and Wireframe for more than two; a line \<^verbatim>\<open>f\<close> sets
  Polygon; each appends the indices it carries, whatever integers they are. Conversely
  the serializer writes \<^verbatim>\<open>p\<close> and the first index for a Point, \<^verbatim>\<open>l\<close> and the two indices
  for a Line, \<^verbatim>\<open>l\<close> and all indices for a Wireframe, \<^verbatim>\<open>f\<close> and all indices for a Polygon,
  and the index tokens it prints parse back to the indices.
\<close>

theorem shape_classification:
  assumes "current_obj st = Some cur"
  shows "(py_int t = Some i \<longrightarrow>
            parse_line libs (''p '' @ t @ [newline]) st
            = Inr (st\<lparr>current_obj := Some (cur\<lparr>kind := Some KPoint,
                     vertex_indexes := vertex_indexes cur @ [i]\<rparr>)\<rparr>))
       \<and> (ints ts = Inr is \<longrightarrow>
            parse_line libs (join '' '' (''l'' # ts) @ [newline]) st
            = Inr (st\<lparr>current_obj := Some (cur\<lparr>
                     kind := Some (if length ts > 2 then KWireframe else KLine),
                     vertex_indexes := vertex_indexes cur @ is\<rparr>)\<rparr>))
       \<and> (ints ts = Inr is \<longrightarrow>
            parse_line libs (join '' '' (''f'' # ts) @ [newline]) st
            = Inr (st\<lparr>current_obj := Some (cur\<lparr>kind := Some KPolygon,
                     vertex_indexes := vertex_indexes cur @ is\<rparr>)\<rparr>))
       \<and> dump_geometry (obj\<lparr>kind := Some KPoint, vertex_indexes := a # js\<rparr>)
           = emit (''p '' @ str_int a @ [newline])
       \<and> dump_geometry (obj\<lparr>kind := Some KLine, vertex_indexes := [a, b]\<rparr>)
           = emit (''l '' @ str_int a @ '' '' @ str_int b @ [newline])
       \<and> dump_geometry (obj\<lparr>kind := Some KWireframe, vertex_indexes := js\<rparr>)
           = emit (join '' '' (''l'' # map str_int js) @ [newline])
       \<and> dump_geometry (obj\<lparr>kind := Some KPolygon, vertex_indexes := js\<rparr>)
           = emit (join '' '' (''f'' # map str_int js) @ [newline])
       \<and> ints (map str_int js) = Inr js"
proof -
  have p: "parse_line libs (''p '' @ t @ [newline]) st
            = Inr (st\<lparr>current_obj := Some (cur\<lparr>kind := Some KPoint,
                     vertex_indexes := vertex_indexes cur @ [i]\<rparr>)\<rparr>)"
    if "py_int t = Some i"
    using that assms by (rule parse_p_line)
  have l: "parse_line libs (join '' '' (''l'' # ts) @ [newline]) st
            = Inr (st\<lparr>current_obj := Some (cur\<lparr>
                     kind := Some (if length ts > 2 then KWireframe else KLine),
                     vertex_indexes := vertex_indexes cur @ is\<rparr>)\<rparr>)"
    if "ints ts = Inr is"
    using that assms by (rule parse_l_line)
  have f: "parse_line libs (join '' '' (''f'' # ts) @ [newline]) st
            = Inr (st\<lparr>current_obj := Some (cur\<lparr>kind := Some KPolygon,
                     vertex_indexes := vertex_indexes cur @ is\<rparr>)\<rparr>)"
    if "ints ts = Inr is"
    using that assms by (rule parse_f_line)
  show ?thesis
    using p l f by (simp add: dump_geometry_def seq_emit ints_str_int)
qed

theorem shape_classification_witness:
  "parse_line (\<lambda>_. None) (''l 1 2'' @ [newline]) (initial_state ''a.obj'')
     = Inr ((initial_state ''a.obj'')
         \<lparr>current_obj := Some \<lparr>kind = Some KLine, vertex_indexes = [1, 2],
                                attributes = [(''name'', AStr ''a'')]\<rparr>\<rparr>)
   \<and> parse_line (\<lambda>_. None) (''l 1 2 3'' @ [newline]) (initial_state ''a.obj'')
     = Inr ((initial_state ''a.obj'')
         \<lparr>current_obj := Some \<lparr>kind = Some KWireframe, vertex_indexes = [1, 2, 3],
                                attributes = [(''name'', AStr ''a'')]\<rparr>\<rparr>)
   \<and> parse_line (\<lambda>_. None) (''f 1 2 3'' @ [newline]) (initial_state ''a.obj'')
     = Inr ((initial_state ''a.obj'')
         \<lparr>current_obj := Some \<lparr>kind = Some KPolygon, vertex_indexes = [1, 2, 3],
                                attributes = [(''name'', AStr ''a'')]\<rparr>\<rparr>)
   \<and> parse_line (\<lambda>_. None) (''p 1'' @ [newline]) (initial_state ''a.obj'')
     = Inr ((initial_state ''a.obj'')
         \<lparr>current_obj := Some \<lparr>kind = Some KPoint, vertex_indexes = [1],
                                attributes = [(''name'', AStr ''a'')]\<rparr>\<rparr>)"
proof -
  let ?cur = "ObjDescriptor ''a'' []"
  have c: "current_obj (initial_state ''a.obj'') = Some ?cur"
    by (simp add: initial_state_def stem_def basename_def)
  have i: "py_int ''1'' = Some 1" "py_int ''2'' = Some 2" "py_int ''3'' = Some 3"
    by (simp_all add: py_int_def py_nat_def digit_val_def digits_value_def)
  then have i2: "ints [''1'', ''2''] = Inr [1, 2]" and i3: "ints [''1'', ''2'', ''3''] = Inr [1, 2, 3]"
    by (simp_all add: and_then_def)
  note t = shape_classification [OF c, of _ _ "\<lambda>_. None"]
  have "parse_line (\<lambda>_. None) (join '' '' (''l'' # [''1'', ''2'']) @ [newline]) (initial_state ''a.obj'')
     = Inr ((initial_state ''a.obj'')
         \<lparr>current_obj := Some \<lparr>kind = Some KLine, vertex_indexes = [1, 2],
                                attributes = [(''name'', AStr ''a'')]\<rparr>\<rparr>)"
    using shape_classification [OF c, of "''1''" 1 "\<lambda>_. None" "[''1'', ''2'']" "[1, 2]"] i2
    by (simp add: ObjDescriptor_def)
  moreover have "parse_line (\<lambda>_. None) (join '' '' (''l'' # [''1'', ''2'', ''3'']) @ [newline]) (initial_state ''a.obj'')
     = Inr ((initial_state ''a.obj'')
         \<lparr>current_obj := Some \<lparr>kind = Some KWireframe, vertex_indexes = [1, 2, 3],
                                attributes = [(''name'', AStr ''a'')]\<rparr>\<rparr>)"
    using shape_classification [OF c, of "''1''" 1 "\<lambda>_. None" "[''1'', ''2'', ''3'']" "[1, 2, 3]"] i3
    by (simp add: ObjDescriptor_def)
  moreover have "parse_line (\<lambda>_. None) (join '' '' (''f'' # [''1'', ''2'', ''3'']) @ [newline]) (initial_state ''a.obj'')
     = Inr ((initial_state ''a.obj'')
         \<lparr>current_obj := Some \<lparr>kind = Some KPolygon, vertex_indexes = [1, 2, 3],
                                attributes = [(''name'', AStr ''a'')]\<rparr>\<rparr>)"
    using shape_classification [OF c, of "''1''" 1 "\<lambda>_. None" "[''1'', ''2'', ''3'']" "[1, 2, 3]"] i3
    by (simp add: ObjDescriptor_def)
  moreover have "parse_line (\<lambda>_. None) (''p '' @ ''1'' @ [newline]) (initial_state ''a.obj'')
     = Inr ((initial_state ''a.obj'')
         \<lparr>current_obj := Some \<lparr>kind = Some KPoint, vertex_indexes = [1],
                                attributes = [(''name'', AStr ''a'')]\<rparr>\<rparr>)"
    using shape_classification [OF c, of "''1''" 1 "\<lambda>_. None" "[''1'', ''2'', ''3'']" "[1, 2, 3]"] i
    by (simp add: ObjDescriptor_def)
  ultimately show ?thesis by simp
qed

section \<open>The implicit object\<close>













section \<open>Material resolution\<close>

lemma float_one: "py_float ''1.0'' = Some 1"
  by (simp add: py_float_def mantissa_def cut_def opt_digits_def digit_val_def digits_value_def)

lemma float_zero: "py_float ''0.0'' = Some 0"
  by (simp add: py_float_def mantissa_def cut_def opt_digits_def digit_val_def digits_value_def)

lemma channels_red: "channels [''1.0'', ''0.0'', ''0.0''] = Inr [255, 0, 0]"
  by (simp add: float_one float_zero and_then_def py_trunc_def)








section \<open>A descriptor without a kind at the serializer\<close>

text \<open>
  Claim C3. The kind of every descriptor is to be set before serialization, and a
  descriptor without a kind is never to be emitted. The code does otherwise: opening an
  empty file in mode \<^verbatim>\<open>'r+'\<close> gives a session whose only descriptor has no kind (the parser
  appends the accumulator at the end of the stream without the test of the \<^verbatim>\<open>o\<close> branch),
  and closing that session hands it to the serializer, which writes its \<^verbatim>\<open>o\<close> line and
  then raises \<^verbatim>\<open>AttributeError\<close> at \<^verbatim>\<open>obj.kind.lower()\<close>.
\<close>

theorem kindless_descriptor_reaches_serializer:
  "ObjFile_init libs \<lparr>file_name = ''a.obj'', file_content = []\<rparr> ''r+'' []
     = Inr \<lparr>self_file = \<lparr>file_name = ''a.obj'', file_content = []\<rparr>, self_mode = ''r+'',
            self_descriptors = [\<lparr>kind = None, vertex_indexes = [],
                                 attributes = [(''name'', AStr ''a'')]\<rparr>],
            self_vertices = [None], self_globals = []\<rparr>
   \<and> ObjFile_close fmt
       \<lparr>self_file = \<lparr>file_name = ''a.obj'', file_content = []\<rparr>, self_mode = ''r+'',
        self_descriptors = [\<lparr>kind = None, vertex_indexes = [],
                             attributes = [(''name'', AStr ''a'')]\<rparr>],
        self_vertices = [None], self_globals = []\<rparr>
     = (\<lparr>file_name = ''a.obj'', file_content = ''o a\<newline>''\<rparr>, Some AttributeError)"
  by (simp add: ObjFile_init_def parse_objs_def file_lines_def initial_state_def finish_def
      stem_def basename_def ObjDescriptor_def ObjFile_close_def dump_objs_def dump_obj_def
      dump_attribute_def dump_geometry_def seq_def emit_def raise_def newline_def)

section \<open>Vertex indexes and the vertex table\<close>

lemma map_int_upt: "map int [l..<l + Suc n] = int l # map int [Suc l..<Suc l + n]"
  by (simp add: upt_conv_Cons)

lemma register_eq:
  "register ps (vs, js) = (vs @ map Some ps, js @ map int [length vs..<length vs + length ps])"
proof (induction ps arbitrary: vs js)
  case Nil
  then show ?case by simp
next
  case (Cons p ps)
  have "map int [length vs..<length vs + Suc (length ps)]
        = int (length vs) # map int [Suc (length vs)..<Suc (length vs) + length ps]"
    by (rule map_int_upt)
  with Cons [of "vs @ [Some p]" "js @ [int (length vs)]"] show ?case by simp
qed

lemma drawable_to_obj_range:
  assumes "ObjFile_drawable_to_obj vs d nm kw = (obj, vs')" and "vs \<noteq> []"
  shows "length vs \<le> length vs'
       \<and> list_all (\<lambda>i. 1 \<le> i \<and> i \<le> int (length vs') - 1) (vertex_indexes obj)"
proof -
  have "Suc 0 \<le> length vs" using assms(2) by (cases vs) simp_all
  then show ?thesis
    using assms(1)
    by (cases d)
       (auto simp: ObjFile_drawable_to_obj_def Let_def ObjDescriptor_def register_eq list_all_iff
             simp del: One_nat_def)
qed

lemma indexes_between_mono: "indexes_between lo hi ds \<Longrightarrow> hi \<le> hi' \<Longrightarrow> indexes_between lo hi' ds"
  by (simp add: indexes_between_def list_all_iff) (meson order_trans)

lemma write_keeps_range:
  assumes "self_mode s \<in> set [''w'', ''w+'', ''r+'']" and "written_in_range s"
  shows "\<exists>s'. ObjFile_write s d nm kw = Inr s' \<and> self_mode s' = self_mode s \<and> written_in_range s'"
proof -
  obtain obj vs' where r: "ObjFile_drawable_to_obj (self_vertices s) d nm kw = (obj, vs')"
    by (cases "ObjFile_drawable_to_obj (self_vertices s) d nm kw")
  from assms(2) have ne: "self_vertices s \<noteq> []" by (simp add: written_in_range_def)
  note b = drawable_to_obj_range [OF r ne]
  then have "vs' \<noteq> []" using ne by auto
  moreover have "indexes_between 1 (int (length vs') - 1) (self_descriptors s)"
    using assms(2) b by (auto simp: written_in_range_def intro: indexes_between_mono)
  ultimately show ?thesis
    using assms(1) r b
    by (simp add: ObjFile_write_def written_in_range_def indexes_between_def)
qed

lemma write_all_keeps_range:
  "self_mode s \<in> set [''w'', ''w+'', ''r+''] \<Longrightarrow> written_in_range s \<Longrightarrow>
   \<exists>s'. write_all s items = Inr s' \<and> written_in_range s'"
proof (induction items arbitrary: s)
  case Nil
  then show ?case by simp
next
  case (Cons item items)
  obtain s1 where s1: "ObjFile_write s (fst item) (fst (snd item)) (snd (snd item)) = Inr s1"
    "self_mode s1 = self_mode s" "written_in_range s1"
    using write_keeps_range [OF Cons.prems] by blast
  with Cons.IH [of s1] Cons.prems(1) show ?case
    by (simp add: and_then_def)
qed

text \<open>
  Claim C4, as stated, for every session: each vertex index is at least 1 and at most
  the length of the vertex table. It fails for a read session, whose indexes are the
  integers of the text: the file \<^verbatim>\<open>p 5\<close> gives a descriptor with index 5 and a vertex
  table of length 1.
\<close>

theorem read_session_index_out_of_range:
  "ObjFile_init (\<lambda>_. None) \<lparr>file_name = ''a.obj'', file_content = ''p 5\<newline>''\<rparr> ''r'' []
     = Inr \<lparr>self_file = \<lparr>file_name = ''a.obj'', file_content = ''p 5\<newline>''\<rparr>, self_mode = ''r'',
            self_descriptors = [\<lparr>kind = Some KPoint, vertex_indexes = [5],
                                 attributes = [(''name'', AStr ''a'')]\<rparr>],
            self_vertices = [None], self_globals = []\<rparr>
   \<and> \<not> indexes_between 1 (int (length [None :: point option]))
         [\<lparr>kind = Some KPoint, vertex_indexes = [5], attributes = [(''name'', AStr ''a'')]\<rparr>]"
proof -
  have w: "split (strip ''p 5\<newline>'') = [''p'', ''5'']"
    by (simp add: words is_space_def)
  have i: "py_int ''5'' = Some 5"
    by (simp add: py_int_def py_nat_def digit_val_def digits_value_def)
  show ?thesis
    by (simp add: ObjFile_init_def parse_objs_def file_lines_def newline_def carriage_return_def
        initial_state_def finish_def stem_def basename_def ObjDescriptor_def parse_line_def
        parse_words_def w i indexes_between_def)
qed

text \<open>
  Claim C4, amended: in a session opened for writing (\<^verbatim>\<open>'w'\<close> or \<^verbatim>\<open>'w+'\<close>), after any
  sequence of \<^verbatim>\<open>write\<close> calls, every vertex index of every descriptor is at least 1 and at
  most the last index of the vertex table (its length minus one, slot 0 being the
  sentinel), hence at most its length.
\<close>

theorem written_indexes_in_range:
  assumes "ObjFile_init libs f m kwargs = Inr s0" and "m = ''w'' \<or> m = ''w+''"
  shows "\<exists>s. write_all s0 items = Inr s
             \<and> indexes_between 1 (int (length (self_vertices s)) - 1) (self_descriptors s)
             \<and> indexes_between 1 (int (length (self_vertices s))) (self_descriptors s)"
proof -
  have "self_mode s0 \<in> set [''w'', ''w+'', ''r+'']" and "written_in_range s0"
    using assms
    by (auto simp: ObjFile_init_def written_in_range_def indexes_between_def split: if_splits)
  then obtain s where "write_all s0 items = Inr s" "written_in_range s"
    using write_all_keeps_range by blast
  then show ?thesis
    by (auto simp: written_in_range_def intro: indexes_between_mono)
qed

theorem written_indexes_in_range_witness:
  "\<exists>s. write_all \<lparr>self_file = \<lparr>file_name = ''a.obj'', file_content = []\<rparr>, self_mode = ''w+'',
                    self_descriptors = [], self_vertices = [None], self_globals = []\<rparr>
            [(DLine (Point2 0 0) (Point2 1 1), ''a'', []), (DPoint (Point2 2 2), ''b'', [])] = Inr s
       \<and> indexes_between 1 (int (length (self_vertices s)) - 1) (self_descriptors s)
       \<and> indexes_between 1 (int (length (self_vertices s))) (self_descriptors s)"
proof -
  have m: "''w+'' = ''w'' \<or> ''w+'' = ''w+''" by simp
  have "ObjFile_init (\<lambda>_. None) \<lparr>file_name = ''a.obj'', file_content = []\<rparr> ''w+'' []
        = Inr \<lparr>self_file = \<lparr>file_name = ''a.obj'', file_content = []\<rparr>, self_mode = ''w+'',
                    self_descriptors = [], self_vertices = [None], self_globals = []\<rparr>"
    by (simp add: ObjFile_init_def)
  then show ?thesis
    using m by (rule written_indexes_in_range)
qed

section \<open>Indexes that do not resolve\<close>













section \<open>The round trip\<close>

subsection \<open>The text of a file as lines\<close>










lemma no_breaks_blank: "no_breaks '' ''"
  by (simp add: no_breaks_def newline_def carriage_return_def)



subsection \<open>The serializer writes lines\<close>












subsection \<open>No line of the serializer holds a line break\<close>









subsection \<open>The parser reads the lines back\<close>











subsection \<open>Parsing a serialized session\<close>




subsection \<open>What \<^verbatim>\<open>write\<close> builds\<close>












subsection \<open>The format of whole numbers\<close>











end
